theory Spec2Isabelle
  imports Main "HOL-Library.Word"
begin

unbundle bit_operations_syntax

section \<open>pi\_button\_to\_kbd: a shallow embedding of main.c\<close>

text \<open>
  The program watches GPIO lines through sysfs, debounces their interrupts and writes key
  events to a uinput device. The embedding follows \<^verbatim>\<open>main.c\<close> function by function.
  What the program reads from its environment (clock readings, the result of \<^verbatim>\<open>poll\<close>,
  the bytes of a \<^verbatim>\<open>value\<close> file, whether a file can be opened) is an input of the model;
  what it writes (files, ioctls, input events, stderr) is appended to a trace of actions.
\<close>

subsection \<open>Constants of main.c\<close>

definition EDGE_RISING :: int where "EDGE_RISING = 1"
definition EDGE_FALLING :: int where "EDGE_FALLING = 2"
definition SEC_PER_YEAR :: int where "SEC_PER_YEAR = 31536000"
definition UP :: "32 word" where "UP = 0x0000"
definition DOWN :: "32 word" where "DOWN = 0x1000"
definition BOUNCE_MSEC :: int where "BOUNCE_MSEC = 300"
definition MAX_PINS :: nat where "MAX_PINS = 16"
definition EDGE :: int where "EDGE = EDGE_FALLING"
definition DEBUG :: bool where "DEBUG = False"
definition CLOCK_ERROR_SECONDS :: int where "CLOCK_ERROR_SECONDS = SEC_PER_YEAR"

subsection \<open>Constants of the Linux headers\<close>

text \<open>
  The values of \<^verbatim>\<open>linux/input-event-codes.h\<close>, \<^verbatim>\<open>linux/input.h\<close> and \<^verbatim>\<open>poll.h\<close> that
  main.c names.
\<close>

definition EV_SYN :: int where "EV_SYN = 0"
definition EV_KEY :: int where "EV_KEY = 1"
definition SYN_REPORT :: int where "SYN_REPORT = 0"
definition KEY_R :: "32 word" where "KEY_R = 19"
definition KEY_LEFTCTRL :: "32 word" where "KEY_LEFTCTRL = 29"
definition KEY_SPACE :: "32 word" where "KEY_SPACE = 57"
definition POLLPRI :: int where "POLLPRI = 2"

subsection \<open>The C type int\<close>

text \<open>
  Values of type \<^verbatim>\<open>int\<close> are modelled as integers of HOL together with the range of a
  32-bit \<^verbatim>\<open>int\<close>. Where C leaves a computation undefined (signed overflow, a
  floating-point value converted to an \<^verbatim>\<open>int\<close> it does not fit, \<^verbatim>\<open>abs (INT_MIN)\<close>) or
  implementation-defined (a \<^verbatim>\<open>time_t\<close> difference that does not fit the \<^verbatim>\<open>int\<close>
  parameter of \<^verbatim>\<open>abs\<close>), the model returns \<open>None\<close> and the caller reports \<open>Undefined\<close>.
\<close>

definition INT_MIN :: int where "INT_MIN = - 2147483648"
definition INT_MAX :: int where "INT_MAX = 2147483647"

definition in_int :: "int \<Rightarrow> bool" where
  "in_int x = (INT_MIN \<le> x \<and> x \<le> INT_MAX)"

definition c_abs :: "int \<Rightarrow> int option" where
  "c_abs x = (if in_int x \<and> x \<noteq> INT_MIN then Some \<bar>x\<bar> else None)"

text \<open>Integer division of C truncates towards zero.\<close>

definition c_div :: "int \<Rightarrow> int \<Rightarrow> int" where
  "c_div a b = sgn a * sgn b * (\<bar>a\<bar> div \<bar>b\<bar>)"

subsection \<open>The mapping table\<close>

text \<open>
  A \<^verbatim>\<open>Mapping\<close> pairs a pin with an array of key entries. Both the table and each key
  array are sentinel-terminated in C (pin 0, key 0). A list holds the elements declared
  before the final sentinel; the loops below stop at the first zero element or at the end
  of the list, where the C loop reads that sentinel.
\<close>

record Mapping =
  pin :: int
  keys :: "32 word list"

definition key_space :: "32 word list" where
  "key_space = [KEY_SPACE OR DOWN, KEY_SPACE OR UP]"

definition key_ctrl_r :: "32 word list" where
  "key_ctrl_r = [KEY_LEFTCTRL OR DOWN, KEY_R OR DOWN, KEY_R OR UP, KEY_LEFTCTRL OR UP]"

definition mappings :: "Mapping list" where
  "mappings = [\<lparr>pin = 20, keys = key_space\<rparr>, \<lparr>pin = 21, keys = key_ctrl_r\<rparr>]"

subsection \<open>The trace of actions\<close>

record input_event =
  ie_type :: "16 word"
  ie_code :: "16 word"
  ie_value :: int
  ie_tv_sec :: int
  ie_tv_usec :: int

record uinput_setup =
  id_bustype :: "16 word"
  id_vendor :: "16 word"
  id_product :: "16 word"
  id_version :: "16 word"
  name :: string
  ff_effects_max :: "32 word"

datatype ioctl_request =
    UI_SET_EVBIT int
  | UI_SET_KEYBIT "8 word"
  | UI_DEV_SETUP uinput_setup
  | UI_DEV_CREATE

text \<open>
  The messages main.c prints to stderr, by their place in the source:
  \<^item> \<open>Debug fmt\<close>: \<^verbatim>\<open>dbglog (fmt, ...)\<close>, printed only when \<^verbatim>\<open>debug\<close> is set;
  \<^item> \<open>Cant_write file\<close>: \<^verbatim>\<open>"Can't write to %s: %s\n"\<close> in \<^verbatim>\<open>write_to_file\<close>;
  \<^item> \<open>Cant_open_uinput\<close>: \<^verbatim>\<open>"Can't open /dev/uinput: %s\n"\<close> in \<^verbatim>\<open>open_uinput\<close>;
  \<^item> \<open>Cant_open_gpio file\<close>: \<^verbatim>\<open>"Can't open GPIO device %s\n"\<close> in \<^verbatim>\<open>main\<close>;
  \<^item> \<open>No_mapping p\<close>: \<^verbatim>\<open>"Inernal error: pin %d with no mapping\n"\<close> in \<^verbatim>\<open>button_pressed\<close>.
\<close>

datatype message =
    Debug string
  | Cant_write string
  | Cant_open_uinput
  | Cant_open_gpio string
  | No_mapping int

text \<open>
  The actions of the trace: \<open>File_write file text\<close> for a call of \<^verbatim>\<open>write_to_file\<close> that
  opened \<open>file\<close> and passed \<open>text\<close> to \<^verbatim>\<open>fprintf\<close> (whose result the program does not
  look at); \<open>Stderr\<close> for a message; \<open>Ioctl fd req\<close> for an \<^verbatim>\<open>ioctl\<close> on the uinput
  descriptor; \<open>Write_event fd ev\<close> for the \<^verbatim>\<open>write\<close> of \<^verbatim>\<open>emit_event\<close>; \<open>Close fd\<close> for
  the \<^verbatim>\<open>close\<close> of \<^verbatim>\<open>close_uinput\<close>. What the program only reads or waits for is not an
  action: \<^verbatim>\<open>poll\<close>, the \<^verbatim>\<open>read\<close> that drains an interrupt, \<^verbatim>\<open>usleep\<close>, the
  installation of the signal handlers, and the \<^verbatim>\<open>open\<close>, \<^verbatim>\<open>read\<close> and \<^verbatim>\<open>close\<close> of the
  \<^verbatim>\<open>value\<close> file in \<^verbatim>\<open>get_pin_state\<close>; their results are inputs of the model.
\<close>

datatype action =
    File_write string string
  | Stderr message
  | Ioctl int ioctl_request
  | Write_event int input_event
  | Close int

text \<open>
  A function that can end the process returns an outcome: \<open>Ok\<close> with its result,
  \<open>Exit c tr\<close> when \<^verbatim>\<open>exit (c)\<close> was called (or \<^verbatim>\<open>main\<close> returned \<open>c\<close>) after the actions
  \<open>tr\<close>, or \<open>Undefined\<close> where C gives the execution no meaning.
\<close>

datatype 'a outcome = Ok 'a | Exit int "action list" | Undefined


subsection \<open>dbglog\<close>

definition debug :: bool where "debug = DEBUG"

definition dbglog :: "string \<Rightarrow> action list \<Rightarrow> action list" where
  "dbglog fmt tr = (if \<not> debug then tr else tr @ [Stderr (Debug fmt)])"

subsection \<open>get\_pin\_state\<close>

text \<open>
  \<open>rc\<close> is what \<^verbatim>\<open>read\<close> returned for the \<^verbatim>\<open>value\<close> file and \<open>b\<close> is \<^verbatim>\<open>buff[0]\<close>. The
  byte is read as unsigned, as \<^verbatim>\<open>char\<close> is on ARM; where \<^verbatim>\<open>char\<close> is signed a byte above
  127 gives another value, which is neither 0 nor 1 either.
\<close>

definition get_pin_state :: "int \<Rightarrow> char \<Rightarrow> int" where
  "get_pin_state rc b = (if rc = 2 then int (of_char b) - int (of_char CHR ''0'') else - 1)"

subsection \<open>get\_mapping\<close>

fun get_mapping :: "Mapping list \<Rightarrow> int \<Rightarrow> Mapping option" where
  "get_mapping [] p = None"
| "get_mapping (m # ms) p =
     (if pin m = 0 then None
      else if p = pin m then Some m
      else get_mapping ms p)"

subsection \<open>emit\_event, emit\_keystroke, button\_pressed\<close>

definition emit_event :: "int \<Rightarrow> int \<Rightarrow> int \<Rightarrow> int \<Rightarrow> action list \<Rightarrow> action list" where
  "emit_event uinput_fd ty code val tr =
     tr @ [Write_event uinput_fd
             \<lparr>ie_type = word_of_int ty, ie_code = word_of_int code, ie_value = val,
              ie_tv_sec = 0, ie_tv_usec = 0\<rparr>]"

definition emit_keystroke :: "int \<Rightarrow> 32 word \<Rightarrow> action list \<Rightarrow> action list" where
  "emit_keystroke uinput_fd key tr =
     (if key AND DOWN \<noteq> 0
      then emit_event uinput_fd EV_SYN SYN_REPORT 0
             (emit_event uinput_fd EV_KEY (uint (key AND 0xFF)) 1 tr)
      else emit_event uinput_fd EV_SYN SYN_REPORT 0
             (emit_event uinput_fd EV_KEY (uint (key AND 0xFF)) 0 tr))"

text \<open>The loop \<^verbatim>\<open>while (*keystrokes)\<close> of \<^verbatim>\<open>button_pressed\<close>.\<close>

fun emit_keystrokes :: "int \<Rightarrow> 32 word list \<Rightarrow> action list \<Rightarrow> action list" where
  "emit_keystrokes uinput_fd [] tr = tr"
| "emit_keystrokes uinput_fd (k # ks) tr =
     (if k = 0 then tr
      else emit_keystrokes uinput_fd ks
             (emit_keystroke uinput_fd k (dbglog ''Emit keystroke %04X'' tr)))"

definition button_pressed ::
  "Mapping list \<Rightarrow> int \<Rightarrow> int \<Rightarrow> int \<Rightarrow> action list \<Rightarrow> action list" where
  "button_pressed tbl uinput_fd p state tr =
     (case get_mapping tbl p of
        Some m \<Rightarrow> emit_keystrokes uinput_fd (keys m) tr
      | None \<Rightarrow> tr @ [Stderr (No_mapping p)])"

subsection \<open>The main loop\<close>

text \<open>
  What the environment supplies when one descriptor of the poll set is looked at:
  the \<^verbatim>\<open>revents\<close> that \<^verbatim>\<open>poll\<close> left, the two readings of \<^verbatim>\<open>time (NULL)\<close> (the one
  compared with the anchor and the one stored as the new anchor), the reading of
  \<^verbatim>\<open>gettimeofday\<close>, and what \<^verbatim>\<open>read\<close> returns inside \<^verbatim>\<open>get_pin_state\<close>.
\<close>

record readings =
  revents :: int
  now_check :: int
  now_reset :: int
  tv_sec :: int
  tv_usec :: int
  state_rc :: int
  state_buff0 :: char

text \<open>The variables of \<^verbatim>\<open>main\<close> that the loop changes, and the trace.\<close>

record loop_state =
  start :: int
  ticks :: "int list"
  trace :: "action list"

text \<open>
  \<^verbatim>\<open>int total_msec = (tv.tv_sec - start) * 1000.0 + msec\<close>: the product and the sum are
  computed in double precision and converted to \<^verbatim>\<open>int\<close>. Whenever the exact value fits an
  \<^verbatim>\<open>int\<close> every intermediate value is an integer below \<open>2^53\<close>, so the arithmetic is
  exact; otherwise the rounded value does not fit either and the conversion is
  undefined. \<^verbatim>\<open>tv_usec\<close> lies between 0 and 999999.
\<close>

definition total_msec :: "int \<Rightarrow> int \<Rightarrow> int \<Rightarrow> int option" where
  "total_msec sec usec anchor =
     (let msec = c_div usec 1000;
          v = (sec - anchor) * 1000 + msec
      in if in_int v then Some v else None)"

text \<open>
  The body of \<^verbatim>\<open>if (fdset[i].revents & POLLPRI)\<close> in \<^verbatim>\<open>main\<close>, for the descriptor of
  index \<open>i\<close>. \<open>pins\<close>, \<open>edge\<close> and \<open>uinput_fd\<close> are the variables of \<^verbatim>\<open>main\<close> of these
  names and \<open>bounce_time\<close> is \<^verbatim>\<open>BOUNCE_MSEC\<close>.
\<close>

definition main_pin_event ::
  "Mapping list \<Rightarrow> int list \<Rightarrow> int \<Rightarrow> int \<Rightarrow> nat \<Rightarrow> readings \<Rightarrow> loop_state
     \<Rightarrow> loop_state outcome" where
  "main_pin_event tbl pins edge uinput_fd i r s =
     (if length pins \<le> i \<or> length (ticks s) \<le> i then Undefined
      else case c_abs (now_check r - start s) of
        None \<Rightarrow> Undefined
      | Some d \<Rightarrow>
          if d > CLOCK_ERROR_SECONDS
          then Ok (s\<lparr>start := now_reset r,
                     trace := dbglog ''System time has changed: correcting'' (trace s)\<rparr>)
          else case total_msec (tv_sec r) (tv_usec r) (start s) of
            None \<Rightarrow> Undefined
          | Some elapsed \<Rightarrow>
              if \<not> in_int (elapsed - ticks s ! i) then Undefined
              else if elapsed - ticks s ! i > BOUNCE_MSEC \<and> elapsed > 1000
              then
                let state = get_pin_state (state_rc r) (state_buff0 r);
                    tr = (if (state = 0 \<and> edge AND EDGE_FALLING \<noteq> 0)
                             \<or> (state = 1 \<and> edge AND EDGE_RISING \<noteq> 0)
                          then button_pressed tbl uinput_fd (pins ! i) state
                                 (dbglog ''GPIO state change: pin %d, state %d'' (trace s))
                          else trace s)
                in Ok (s\<lparr>ticks := (ticks s)[i := elapsed], trace := tr\<rparr>)
              else Ok s)"

text \<open>
  The loop \<^verbatim>\<open>for (int i = 0; i < npins; i++)\<close> over the poll set after one call of
  \<^verbatim>\<open>poll\<close>; \<open>rd i\<close> is what the environment supplies for descriptor \<open>i\<close>. It is run on
  the indices \<open>[0..<npins]\<close>.
\<close>

fun main_scan ::
  "Mapping list \<Rightarrow> int list \<Rightarrow> int \<Rightarrow> int \<Rightarrow> (nat \<Rightarrow> readings) \<Rightarrow> nat list \<Rightarrow> loop_state
     \<Rightarrow> loop_state outcome" where
  "main_scan tbl pins edge uinput_fd rd [] s = Ok s"
| "main_scan tbl pins edge uinput_fd rd (i # is) s =
     (if revents (rd i) AND POLLPRI \<noteq> 0
      then case main_pin_event tbl pins edge uinput_fd i (rd i) s of
             Ok s' \<Rightarrow> main_scan tbl pins edge uinput_fd rd is s'
           | Exit c tr \<Rightarrow> Exit c tr
           | Undefined \<Rightarrow> Undefined
      else main_scan tbl pins edge uinput_fd rd is s)"

text \<open>
  The loop \<^verbatim>\<open>while (!quit)\<close>. The list holds one element for every time the loop found
  \<^verbatim>\<open>quit\<close> unset and called \<^verbatim>\<open>poll\<close>; at its end the loop finds \<^verbatim>\<open>quit\<close> set by the
  signal handler and leaves.
\<close>

fun main_loop ::
  "Mapping list \<Rightarrow> int list \<Rightarrow> int \<Rightarrow> int \<Rightarrow> (nat \<Rightarrow> readings) list \<Rightarrow> loop_state
     \<Rightarrow> loop_state outcome" where
  "main_loop tbl pins edge uinput_fd [] s = Ok s"
| "main_loop tbl pins edge uinput_fd (rd # rds) s =
     (case main_scan tbl pins edge uinput_fd rd [0..<length pins] s of
        Ok s' \<Rightarrow> main_loop tbl pins edge uinput_fd rds s'
      | Exit c tr \<Rightarrow> Exit c tr
      | Undefined \<Rightarrow> Undefined)"

subsection \<open>Files: write\_to\_file, export\_pins, unexport\_pins\<close>

text \<open>
  The environment decides whether a file can be opened, given the actions performed so
  far: \<open>fopen_ok\<close> for \<^verbatim>\<open>fopen (file, "w")\<close>, and \<open>open_fd\<close> for the descriptor (or -1)
  that \<^verbatim>\<open>open\<close> returns.
\<close>

record world =
  fopen_ok :: "action list \<Rightarrow> string \<Rightarrow> bool"
  open_fd :: "action list \<Rightarrow> string \<Rightarrow> int"

text \<open>The conversion \<^verbatim>\<open>%d\<close> of \<^verbatim>\<open>snprintf\<close>; every path built with it fits its buffer.\<close>

fun decimal :: "nat \<Rightarrow> string" where
  "decimal n =
     (if n < 10 then [''0123456789'' ! n]
      else decimal (n div 10) @ [''0123456789'' ! (n mod 10)])"

declare decimal.simps [simp del]

definition printf_d :: "int \<Rightarrow> string" where
  "printf_d x = (if x < 0 then CHR ''-'' # decimal (nat (- x)) else decimal (nat x))"

definition write_to_file :: "world \<Rightarrow> string \<Rightarrow> string \<Rightarrow> action list \<Rightarrow> action list outcome" where
  "write_to_file w file text tr =
     (if fopen_ok w tr file then Ok (tr @ [File_write file text])
      else Exit (- 1) (tr @ [Stderr (Cant_write file)]))"


fun export_pins :: "world \<Rightarrow> int list \<Rightarrow> action list \<Rightarrow> action list outcome" where
  "export_pins w [] tr = Ok tr"
| "export_pins w (p # ps) tr =
     (case write_to_file w ''/sys/class/gpio/export'' (printf_d p) tr of
        Ok tr1 \<Rightarrow>
          (case write_to_file w (''/sys/class/gpio/gpio'' @ printf_d p @ ''/direction'') ''in'' tr1 of
             Ok tr2 \<Rightarrow>
               (case write_to_file w (''/sys/class/gpio/gpio'' @ printf_d p @ ''/edge'') ''both'' tr2 of
                  Ok tr3 \<Rightarrow> export_pins w ps tr3
                | Exit c t \<Rightarrow> Exit c t
                | Undefined \<Rightarrow> Undefined)
           | Exit c t \<Rightarrow> Exit c t
           | Undefined \<Rightarrow> Undefined)
      | Exit c t \<Rightarrow> Exit c t
      | Undefined \<Rightarrow> Undefined)"

subsection \<open>open\_uinput, close\_uinput\<close>

text \<open>The inner loop \<^verbatim>\<open>while (*keystrokes)\<close> and the outer loop over the table.\<close>

fun set_keybits :: "int \<Rightarrow> 32 word list \<Rightarrow> action list \<Rightarrow> action list" where
  "set_keybits fd [] tr = tr"
| "set_keybits fd (k # ks) tr =
     (if k = 0 then tr
      else set_keybits fd ks (tr @ [Ioctl fd (UI_SET_KEYBIT (ucast (k AND 0xFF)))]))"

fun set_table_keybits :: "int \<Rightarrow> Mapping list \<Rightarrow> action list \<Rightarrow> action list" where
  "set_table_keybits fd [] tr = tr"
| "set_table_keybits fd (m # ms) tr =
     (if pin m = 0 then tr
      else set_table_keybits fd ms (set_keybits fd (keys m) tr))"




subsection \<open>main\<close>

text \<open>The first loop of \<^verbatim>\<open>main\<close>, which copies the pins of the table into \<^verbatim>\<open>pins\<close>.\<close>

fun table_pins :: "Mapping list \<Rightarrow> int list" where
  "table_pins [] = []"
| "table_pins (m # ms) = (if pin m = 0 then [] else pin m # table_pins ms)"

text \<open>
  The loop that opens the \<^verbatim>\<open>value\<close> file of every pin and fills \<^verbatim>\<open>fdset_base\<close>; \<open>fds\<close>
  are the descriptors stored so far.
\<close>

fun open_values :: "world \<Rightarrow> int list \<Rightarrow> int list \<Rightarrow> action list \<Rightarrow> (int list \<times> action list) outcome" where
  "open_values w [] fds tr = Ok (fds, tr)"
| "open_values w (p # ps) fds tr =
     (let s = ''/sys/class/gpio/gpio'' @ printf_d p @ ''/value'';
          gpio_fd = open_fd w tr s
      in if gpio_fd < 0 then Exit (- 1) (tr @ [Stderr (Cant_open_gpio s)])
         else open_values w ps (fds @ [gpio_fd]) tr)"



subsection \<open>Inputs used to state the properties\<close>

text \<open>
  A wake-up of \<^verbatim>\<open>poll\<close> in which the descriptor of index \<open>i\<close> alone is pending, with
  the readings \<open>r\<close>.
\<close>

definition only_line :: "nat \<Rightarrow> readings \<Rightarrow> nat \<Rightarrow> readings" where
  "only_line i r = (\<lambda>j. if j = i then r else r\<lparr>revents := 0\<rparr>)"

text \<open>
  An interrupt at the wall-clock time of \<open>sec\<close> seconds and \<open>usec\<close> microseconds, after
  which the \<^verbatim>\<open>value\<close> file reads as the two bytes \<open>b\<close> and newline.
\<close>

definition interrupt_at :: "int \<Rightarrow> int \<Rightarrow> char \<Rightarrow> readings" where
  "interrupt_at sec usec b =
     \<lparr>revents = POLLPRI, now_check = sec, now_reset = sec, tv_sec = sec, tv_usec = usec,
      state_rc = 2, state_buff0 = b\<rparr>"

text \<open>The variables of the loop when \<^verbatim>\<open>main\<close> enters it at the time \<open>t0\<close>.\<close>

definition initial_state :: "int \<Rightarrow> loop_state" where
  "initial_state t0 = \<lparr>start = t0, ticks = replicate MAX_PINS 0, trace = []\<rparr>"


text \<open>
  The two kinds of input event the program writes: a key event with a code and a value
  (1 for a press, 0 for a release), and the synchronization report.
\<close>

definition key_report :: "int \<Rightarrow> nat \<Rightarrow> int \<Rightarrow> action" where
  "key_report fd c v =
     Write_event fd \<lparr>ie_type = 1, ie_code = of_nat c, ie_value = v, ie_tv_sec = 0, ie_tv_usec = 0\<rparr>"

definition sync_report :: "int \<Rightarrow> action" where
  "sync_report fd =
     Write_event fd \<lparr>ie_type = 0, ie_code = 0, ie_value = 0, ie_tv_sec = 0, ie_tv_usec = 0\<rparr>"


subsection \<open>What a complete setup does\<close>









section \<open>Properties\<close>

subsection \<open>Auxiliary facts\<close>

lemma dbglog_off: "dbglog fmt tr = tr"
  by (simp add: dbglog_def debug_def DEBUG_def)

lemma and_ff: "k AND (0xFF :: 32 word) = take_bit 8 k"
  by (simp only: take_bit_eq_mask) (simp add: mask_eq_exp_minus_1)

lemma low_byte_unat: "unat (k AND (0xFF :: 32 word)) = unat k mod 256"
  by (simp add: and_ff take_bit_eq_mod unat_mod)

lemma c_abs_small: "\<bar>x\<bar> \<le> INT_MAX \<Longrightarrow> c_abs x = Some \<bar>x\<bar>"
  by (auto simp: c_abs_def in_int_def INT_MAX_def INT_MIN_def)

lemma c_abs_year: "\<bar>x\<bar> \<le> 31536000 \<Longrightarrow> c_abs x = Some \<bar>x\<bar>"
  by (rule c_abs_small) (simp add: INT_MAX_def)

lemma emit_keystroke_eq:
  "emit_keystroke fd k tr =
     tr @ [key_report fd (unat (k AND 0xFF)) (if k AND 0x1000 \<noteq> 0 then 1 else 0), sync_report fd]"
  by (simp add: emit_keystroke_def emit_event_def key_report_def sync_report_def DOWN_def
      EV_KEY_def EV_SYN_def SYN_REPORT_def)

lemma emit_keystrokes_eq:
  "emit_keystrokes fd ks tr =
     tr @ concat (map (\<lambda>k. [key_report fd (unat (k AND 0xFF)) (if k AND 0x1000 \<noteq> 0 then 1 else 0),
                              sync_report fd]) (takeWhile (\<lambda>k. k \<noteq> 0) ks))"
proof (induction ks arbitrary: tr)
  case Nil
  show ?case by simp
next
  case (Cons k ks)
  show ?case
  proof (cases "k = 0")
    case True
    then show ?thesis by simp
  next
    case False
    then show ?thesis
      by (simp only: emit_keystrokes.simps dbglog_off Cons.IH emit_keystroke_eq) simp
  qed
qed

lemma get_mapping_None: "p \<notin> set (table_pins tbl) \<Longrightarrow> get_mapping tbl p = None"
  by (induction tbl) (auto split: if_splits)

text \<open>
  Every pin that \<^verbatim>\<open>main\<close> copies from the table into the poll set has a mapping, so
  \<^verbatim>\<open>button_pressed\<close> finds one for every polled pin.
\<close>

lemma polled_pin_has_mapping:
  "p \<in> set (table_pins tbl) \<Longrightarrow>
     \<exists>m. get_mapping tbl p = Some m \<and> pin m = p
         \<and> button_pressed tbl fd p st tr = emit_keystrokes fd (keys m) tr"
  by (induction tbl) (auto split: if_splits simp: button_pressed_def)

text \<open>
  The conversion of \<^verbatim>\<open>total_msec\<close> to \<^verbatim>\<open>int\<close> is defined for less than \<open>2^31\<close>
  milliseconds after the anchor: from 2147484 seconds on (about 24.9 days) the value does
  not fit, and the event has no defined behaviour.
\<close>

lemma total_msec_out_of_range:
  assumes "i < length pins" and "i < length (ticks s)"
    and "\<bar>now_check r - start s\<bar> \<le> 31536000"
    and "2147484 \<le> tv_sec r - start s" and "0 \<le> tv_usec r"
  shows "total_msec (tv_sec r) (tv_usec r) (start s) = None
     \<and> main_pin_event tbl pins edge fd i r s = Undefined"
proof -
  have "0 \<le> c_div (tv_usec r) 1000"
    using assms(5) by (simp add: c_div_def sgn_if pos_imp_zdiv_nonneg_iff)
  then have "total_msec (tv_sec r) (tv_usec r) (start s) = None"
    using assms(4) by (simp add: total_msec_def in_int_def INT_MAX_def Let_def)
  then show ?thesis
    using assms(1-3)
    by (simp add: main_pin_event_def c_abs_year CLOCK_ERROR_SECONDS_def SEC_PER_YEAR_def)
qed

subsection \<open>The debounce filter\<close>

text \<open>
  The rule of the filter, where the arithmetic of the program is defined. Take an event on
  the line of index \<open>i\<close> whose clock reading is valid (the wall clock is within a year of
  the anchor) and let \<open>elapsed_ms\<close> be the value the program computes for \<^verbatim>\<open>total_msec\<close>.
  If \<open>elapsed_ms - ticks[i] > 300\<close> and \<open>elapsed_ms > 1000\<close> the event is accepted and
  \<open>ticks[i]\<close> becomes \<open>elapsed_ms\<close>, the anchor staying as it is. Otherwise the event is
  rejected and the whole state (anchor, every last-accepted time, trace of actions) is the
  one before. The premises on \<open>elapsed_ms\<close> say that the two computations on \<^verbatim>\<open>int\<close> are
  defined in C.
\<close>

theorem debounce_accepts_iff:
  assumes "i < length pins" and "i < length (ticks s)"
    and "\<bar>now_check r - start s\<bar> \<le> 31536000"
    and "total_msec (tv_sec r) (tv_usec r) (start s) = Some elapsed_ms"
    and "in_int (elapsed_ms - ticks s ! i)"
  shows "(elapsed_ms - ticks s ! i > 300 \<and> elapsed_ms > 1000 \<longrightarrow>
            (\<exists>s'. main_pin_event tbl pins edge fd i r s = Ok s'
               \<and> ticks s' = (ticks s)[i := elapsed_ms] \<and> ticks s' ! i = elapsed_ms
               \<and> start s' = start s))
       \<and> (\<not> (elapsed_ms - ticks s ! i > 300 \<and> elapsed_ms > 1000) \<longrightarrow>
            main_pin_event tbl pins edge fd i r s = Ok s)"
  using assms
  by (auto simp: main_pin_event_def c_abs_year BOUNCE_MSEC_def CLOCK_ERROR_SECONDS_def
      SEC_PER_YEAR_def Let_def)

text \<open>
  With the anchor at 1000 s, an interrupt at 1005.25 s on line 0 is accepted with
  \<open>elapsed_ms = 5250\<close>; an interrupt at 1000.5 s is inside the startup grace and leaves
  the state as it was.
\<close>

theorem debounce_accepts_iff_witness:
  "(\<exists>s'. main_pin_event mappings [20, 21] EDGE 3 0 (interrupt_at 1005 250000 CHR ''0'')
            (initial_state 1000) = Ok s' \<and> ticks s' ! 0 = 5250)
   \<and> main_pin_event mappings [20, 21] EDGE 3 0 (interrupt_at 1000 500000 CHR ''0'')
        (initial_state 1000) = Ok (initial_state 1000)"
  using debounce_accepts_iff [of 0 "[20, 21]" "initial_state 1000"
      "interrupt_at 1005 250000 CHR ''0''" 5250 mappings EDGE 3]
    debounce_accepts_iff [of 0 "[20, 21]" "initial_state 1000"
      "interrupt_at 1000 500000 CHR ''0''" 500 mappings EDGE 3]
  by (auto simp: initial_state_def interrupt_at_def total_msec_def c_div_def in_int_def
      INT_MIN_def INT_MAX_def MAX_PINS_def)

text \<open>
  C1. The filter does not follow its rule for every event with a valid clock reading.
  The clock guard takes a reading up to a year from the anchor as valid, but
  \<^verbatim>\<open>total_msec\<close> is an \<^verbatim>\<open>int\<close> of milliseconds and holds less than 25 days. In the run
  below the anchor is 1000 s, line 0 has never been accepted (\<open>ticks[0] = 0\<close>) and an
  interrupt arrives at 2148484 s, that is 2147484 s (24.9 days) after the anchor. The
  clock reading is valid and the elapsed time is 2147484000 ms, above the startup grace
  and more than the bounce window after the last-accepted time, so the rule accepts the
  event and sets \<open>ticks[0]\<close> to 2147484000. That number is above \<^verbatim>\<open>INT_MAX\<close>: the conversion
  that yields \<^verbatim>\<open>total_msec\<close> is undefined in C, and the event has no defined outcome.
\<close>

theorem debounce_undefined_after_25_days:
  "c_abs (now_check (interrupt_at 2148484 0 CHR ''0'') - start (initial_state 1000))
     = Some 2147484
   \<and> 2147484 \<le> CLOCK_ERROR_SECONDS
   \<and> (tv_sec (interrupt_at 2148484 0 CHR ''0'') - start (initial_state 1000)) * 1000
       + c_div (tv_usec (interrupt_at 2148484 0 CHR ''0'')) 1000 = 2147484000
   \<and> 2147484000 - ticks (initial_state 1000) ! 0 > 300
   \<and> INT_MAX < 2147484000
   \<and> total_msec 2148484 0 1000 = None
   \<and> main_pin_event mappings [20, 21] EDGE 3 0 (interrupt_at 2148484 0 CHR ''0'')
        (initial_state 1000) = Undefined"
  by (simp add: main_pin_event_def c_abs_def CLOCK_ERROR_SECONDS_def SEC_PER_YEAR_def
      initial_state_def interrupt_at_def total_msec_def c_div_def in_int_def INT_MIN_def
      INT_MAX_def MAX_PINS_def)

subsection \<open>The clock guard\<close>

text \<open>
  C4. When the wall clock differs from the anchor by more than a year (31536000 s), the
  event on line \<open>i\<close> does nothing but reset the anchor to the current time: no
  last-accepted time changes and no action is added to the trace, so no key event is
  written. The difference is the argument of \<^verbatim>\<open>abs\<close>, an \<^verbatim>\<open>int\<close>; the last premise says
  that it fits.
\<close>

theorem clock_discontinuity_discards:
  assumes "i < length pins" and "i < length (ticks s)"
    and "31536000 < \<bar>now_check r - start s\<bar>" and "\<bar>now_check r - start s\<bar> \<le> INT_MAX"
  shows "\<exists>s'. main_pin_event tbl pins edge fd i r s = Ok s'
            \<and> start s' = now_reset r \<and> ticks s' = ticks s \<and> trace s' = trace s"
  using assms
  by (simp add: main_pin_event_def c_abs_small CLOCK_ERROR_SECONDS_def SEC_PER_YEAR_def
      dbglog_off)

text \<open>A jump from 1000 s to 1700000000 s, almost 54 years.\<close>

theorem clock_discontinuity_discards_witness:
  "\<exists>s'. main_pin_event mappings [20, 21] EDGE 3 0 (interrupt_at 1700000000 0 CHR ''0'')
           (initial_state 1000) = Ok s'
         \<and> start s' = 1700000000 \<and> ticks s' = replicate 16 0 \<and> trace s' = []"
  using clock_discontinuity_discards [of 0 "[20, 21]" "initial_state 1000"
      "interrupt_at 1700000000 0 CHR ''0''" mappings EDGE 3]
  by (simp add: initial_state_def interrupt_at_def INT_MAX_def MAX_PINS_def)

subsection \<open>An accepted event\<close>

lemma accepted_event:
  assumes "i < length pins" and "i < length (ticks s)"
    and "\<bar>now_check r - start s\<bar> \<le> 31536000"
    and "total_msec (tv_sec r) (tv_usec r) (start s) = Some e"
    and "in_int (e - ticks s ! i)"
    and "e - ticks s ! i > 300" and "e > 1000"
  shows "main_pin_event tbl pins edge fd i r s =
     Ok (s\<lparr>ticks := (ticks s)[i := e],
            trace := (if (get_pin_state (state_rc r) (state_buff0 r) = 0 \<and> edge AND EDGE_FALLING \<noteq> 0)
                         \<or> (get_pin_state (state_rc r) (state_buff0 r) = 1 \<and> edge AND EDGE_RISING \<noteq> 0)
                      then button_pressed tbl fd (pins ! i)
                             (get_pin_state (state_rc r) (state_buff0 r)) (trace s)
                      else trace s)\<rparr>)"
  using assms
  by (simp add: main_pin_event_def c_abs_year BOUNCE_MSEC_def CLOCK_ERROR_SECONDS_def
      SEC_PER_YEAR_def Let_def dbglog_off)

lemma emit_keystrokes_grows:
  "k \<noteq> 0 \<Longrightarrow> emit_keystrokes fd (k # ks) tr \<noteq> tr"
  by (simp add: emit_keystrokes_eq)

lemmas run_defs = initial_state_def interrupt_at_def total_msec_def c_div_def in_int_def
  INT_MIN_def INT_MAX_def MAX_PINS_def get_pin_state_def EDGE_def EDGE_FALLING_def
  EDGE_RISING_def mappings_def key_space_def key_ctrl_r_def KEY_SPACE_def KEY_R_def
  KEY_LEFTCTRL_def DOWN_def UP_def POLLPRI_def

subsection \<open>The edge resolver\<close>




subsection \<open>The event emitter\<close>

text \<open>
  C6. Take an event that is accepted and whose settled level matches the configured edge,
  on a line whose mapping holds the \<open>N\<close> key entries \<open>keys m\<close> (none of them the
  terminator 0). The event appends to the trace, for each entry in the declared order, the
  key event of the entry followed by one synchronization report, and nothing else: \<open>2 * N\<close>
  writes to the device. The key event carries the value 1 (press) when the entry has the
  \<^verbatim>\<open>DOWN\<close> tag and 0 (release) otherwise.
\<close>

theorem chord_written_in_order:
  assumes "i < length pins" and "i < length (ticks s)"
    and "\<bar>now_check r - start s\<bar> \<le> 31536000"
    and "total_msec (tv_sec r) (tv_usec r) (start s) = Some e"
    and "in_int (e - ticks s ! i)"
    and "e - ticks s ! i > 300" and "e > 1000"
    and "(get_pin_state (state_rc r) (state_buff0 r) = 0 \<and> edge AND EDGE_FALLING \<noteq> 0)
          \<or> (get_pin_state (state_rc r) (state_buff0 r) = 1 \<and> edge AND EDGE_RISING \<noteq> 0)"
    and "get_mapping tbl (pins ! i) = Some m" and "0 \<notin> set (keys m)"
  shows "\<exists>s'. main_pin_event tbl pins edge fd i r s = Ok s'
     \<and> trace s' = trace s @ concat (map (\<lambda>k. [key_report fd (unat (k AND 0xFF))
                                                (if k AND DOWN \<noteq> 0 then 1 else 0),
                                              sync_report fd]) (keys m))
     \<and> length (trace s') = length (trace s) + 2 * length (keys m)"
proof -
  have tw: "takeWhile (\<lambda>k. k \<noteq> 0) (keys m) = keys m"
    using assms(10) by (auto simp: takeWhile_eq_all_conv)
  have len: "length (concat (map (\<lambda>k. [f k, g]) xs)) = 2 * length xs"
    for f :: "32 word \<Rightarrow> action" and g xs
    by (induction xs) auto
  have tr: "button_pressed tbl fd (pins ! i) st (trace s) =
      trace s @ concat (map (\<lambda>k. [key_report fd (unat (k AND 0xFF))
                                     (if k AND DOWN \<noteq> 0 then 1 else 0),
                                   sync_report fd]) (keys m))" for st
    using assms(9) by (simp add: button_pressed_def emit_keystrokes_eq tw DOWN_def)
  show ?thesis
    using assms(8) by (auto simp: accepted_event [OF assms(1-7)] tr len)
qed

text \<open>
  The chord of line 21 (index 1): left control down, R down, R up, left control up, each
  followed by a synchronization report, eight writes in all.
\<close>

theorem chord_written_in_order_witness:
  "\<exists>s'. main_pin_event mappings [20, 21] EDGE 3 1 (interrupt_at 1005 0 CHR ''0'')
            (initial_state 1000) = Ok s'
     \<and> trace s' = [key_report 3 29 1, sync_report 3, key_report 3 19 1, sync_report 3,
                    key_report 3 19 0, sync_report 3, key_report 3 29 0, sync_report 3]
     \<and> length (trace s') = 8"
  using chord_written_in_order [of 1 "[20, 21]" "initial_state 1000"
      "interrupt_at 1005 0 CHR ''0''" 5000 EDGE mappings "\<lparr>pin = 21, keys = key_ctrl_r\<rparr>" 3]
  by (auto simp: run_defs)

subsection \<open>A pin without a mapping\<close>

text \<open>
  C8. For a pin \<open>p\<close> that is not among the pins of the table, \<^verbatim>\<open>get_mapping\<close> returns
  \<^verbatim>\<open>NULL\<close>, and \<^verbatim>\<open>button_pressed\<close> writes nothing to the device but prints the message
  about a pin with no mapping to stderr. When an accepted and edge-matched event arrives
  for such a pin in the scan of the poll set, the scan records the message, updates the
  last-accepted time of the line and goes on with the remaining descriptors.
\<close>

theorem unmapped_pin_logged:
  assumes "p \<notin> set (table_pins tbl)"
  shows "get_mapping tbl p = None
     \<and> button_pressed tbl fd p st tr = tr @ [Stderr (No_mapping p)]
     \<and> (i < length pins \<and> i < length (ticks s) \<and> pins ! i = p
          \<and> revents (rd i) AND POLLPRI \<noteq> 0
          \<and> \<bar>now_check (rd i) - start s\<bar> \<le> 31536000
          \<and> total_msec (tv_sec (rd i)) (tv_usec (rd i)) (start s) = Some e
          \<and> in_int (e - ticks s ! i) \<and> e - ticks s ! i > 300 \<and> e > 1000
          \<and> ((get_pin_state (state_rc (rd i)) (state_buff0 (rd i)) = 0
                 \<and> edge AND EDGE_FALLING \<noteq> 0)
              \<or> (get_pin_state (state_rc (rd i)) (state_buff0 (rd i)) = 1
                 \<and> edge AND EDGE_RISING \<noteq> 0))
        \<longrightarrow> main_scan tbl pins edge fd rd (i # rest) s =
              main_scan tbl pins edge fd rd rest
                (s\<lparr>ticks := (ticks s)[i := e], trace := trace s @ [Stderr (No_mapping p)]\<rparr>))"
proof -
  have none: "get_mapping tbl p = None"
    using assms by (rule get_mapping_None)
  have bp: "button_pressed tbl fd p st tr = tr @ [Stderr (No_mapping p)]" for st tr
    by (simp add: button_pressed_def none)
  show ?thesis
    by (auto simp: none bp accepted_event)
qed

text \<open>
  Pin 22 is not in the table. With the poll set \<open>[22, 20]\<close> and both descriptors pending,
  the scan logs the anomaly for pin 22 and then writes the key events of pin 20.
\<close>

theorem unmapped_pin_logged_witness:
  "get_mapping mappings 22 = None
   \<and> button_pressed mappings 3 22 0 [] = [Stderr (No_mapping 22)]
   \<and> main_scan mappings [22, 20] EDGE 3 (\<lambda>j. interrupt_at 1005 0 CHR ''0'') [0, 1]
        (initial_state 1000)
      = Ok \<lparr>start = 1000, ticks = (replicate 16 0)[0 := 5000, 1 := 5000],
            trace = [Stderr (No_mapping 22), key_report 3 57 1, sync_report 3,
                     key_report 3 57 0, sync_report 3]\<rparr>"
proof -
  have rest: "main_scan mappings [22, 20] EDGE 3 (\<lambda>j. interrupt_at 1005 0 CHR ''0'') [1]
       ((initial_state 1000)\<lparr>ticks := (ticks (initial_state 1000))[0 := 5000],
           trace := trace (initial_state 1000) @ [Stderr (No_mapping 22)]\<rparr>)
      = Ok \<lparr>start = 1000, ticks = (replicate 16 0)[0 := 5000, 1 := 5000],
            trace = [Stderr (No_mapping 22), key_report 3 57 1, sync_report 3,
                     key_report 3 57 0, sync_report 3]\<rparr>"
    by (simp add: main_pin_event_def c_abs_year CLOCK_ERROR_SECONDS_def SEC_PER_YEAR_def
        BOUNCE_MSEC_def Let_def dbglog_off button_pressed_def emit_keystroke_eq run_defs)
  from unmapped_pin_logged [of 22 mappings 3 0 "[]" 0 "[22, 20]" "initial_state 1000"
      "\<lambda>j. interrupt_at 1005 0 CHR ''0''" 5000 EDGE "[1]"] rest
  show ?thesis
    by (simp add: run_defs)
qed

subsection \<open>Key codes are cut to their low byte\<close>

text \<open>
  C10. For an entry \<open>k\<close> of a key array, \<^verbatim>\<open>emit_keystroke\<close> writes a key event whose code
  is \<open>k AND 0xFF\<close> and whose value is 1 exactly when the bit \<open>0x1000\<close> of \<open>k\<close> is set,
  followed by a synchronization report; the loop of \<^verbatim>\<open>open_uinput\<close> over the table
  declares, for every entry of every mapping before the terminators, the key
  \<open>k AND 0xFF\<close>. That code is \<open>k mod 256\<close>: whatever a configured
  scan code has above its low byte is dropped, both when declaring and when emitting.
\<close>

theorem key_code_low_byte:
  "emit_keystroke fd k tr =
     tr @ [key_report fd (unat (k AND 0xFF)) (if k AND 0x1000 \<noteq> 0 then 1 else 0), sync_report fd]
   \<and> set_table_keybits fd tbl tr =
     tr @ map (\<lambda>k. Ioctl fd (UI_SET_KEYBIT (of_nat (unat (k AND 0xFF)))))
            (concat (map (\<lambda>m. takeWhile (\<lambda>k. k \<noteq> 0) (keys m))
                       (takeWhile (\<lambda>m. pin m \<noteq> 0) tbl)))
   \<and> unat (k AND 0xFF) = unat k mod 256"
proof -
  have inner: "set_keybits fd ks tr =
     tr @ map (\<lambda>k. Ioctl fd (UI_SET_KEYBIT (of_nat (unat (k AND 0xFF)))))
            (takeWhile (\<lambda>k. k \<noteq> 0) ks)" for ks tr
    by (induction ks arbitrary: tr) simp_all
  have "set_table_keybits fd tbl tr =
     tr @ map (\<lambda>k. Ioctl fd (UI_SET_KEYBIT (of_nat (unat (k AND 0xFF)))))
            (concat (map (\<lambda>m. takeWhile (\<lambda>k. k \<noteq> 0) (keys m))
                       (takeWhile (\<lambda>m. pin m \<noteq> 0) tbl)))"
    by (induction tbl arbitrary: tr) (simp_all add: inner)
  then show ?thesis
    by (simp add: emit_keystroke_eq low_byte_unat)
qed

text \<open>
  The scan code \<open>0x160\<close> (\<^verbatim>\<open>KEY_OK\<close>), tagged \<^verbatim>\<open>DOWN\<close> or not, is declared and emitted
  as the code \<open>0x60 = 96\<close>.
\<close>

theorem key_code_low_byte_witness:
  "emit_keystroke 3 0x1160 [] = [key_report 3 96 1, sync_report 3]
   \<and> set_table_keybits 3 [\<lparr>pin = 20, keys = [0x1160, 0x0160]\<rparr>] []
       = [Ioctl 3 (UI_SET_KEYBIT 96), Ioctl 3 (UI_SET_KEYBIT 96)]"
  using key_code_low_byte [of 3 "0x1160" "[]" "[\<lparr>pin = 20, keys = [0x1160, 0x0160]\<rparr>]"]
  by simp

subsection \<open>Scanning the poll set\<close>

lemma main_scan_idle:
  "(\<And>j. j \<in> set js \<Longrightarrow> revents (rd j) AND POLLPRI = 0)
    \<Longrightarrow> main_scan tbl pins edge fd rd js s = Ok s"
  by (induction js) simp_all

lemma main_scan_append:
  "main_scan tbl pins edge fd rd (js @ ks) s =
     (case main_scan tbl pins edge fd rd js s of
        Ok s' \<Rightarrow> main_scan tbl pins edge fd rd ks s'
      | Exit c tr \<Rightarrow> Exit c tr
      | Undefined \<Rightarrow> Undefined)"
  by (induction js arbitrary: s) (auto split: outcome.splits)

lemma only_line_other: "j \<noteq> i \<Longrightarrow> revents (only_line i r j) AND POLLPRI = 0"
  by (simp add: only_line_def)

lemma main_scan_only_line:
  assumes "i < n" and "revents r AND POLLPRI \<noteq> 0"
  shows "main_scan tbl pins edge fd (only_line i r) [0..<n] s
           = main_pin_event tbl pins edge fd i r s"
proof -
  have split: "[0..<n] = [0..<i] @ i # [Suc i..<n]"
    using assms(1)
    by (metis upt_conv_Cons upt_add_eq_append le0 le_add_diff_inverse less_imp_le_nat
        plus_nat.add_0)
  have before: "main_scan tbl pins edge fd (only_line i r) [0..<i] s = Ok s"
    by (rule main_scan_idle) (simp add: only_line_other)
  have after: "main_scan tbl pins edge fd (only_line i r) [Suc i..<n] s' = Ok s'" for s'
    by (rule main_scan_idle) (simp add: only_line_other)
  have here: "only_line i r i = r"
    by (simp add: only_line_def)
  show ?thesis
    unfolding split main_scan_append before
    using assms(2) by (simp add: here after split: outcome.splits)
qed

lemma rejected_event:
  assumes "i < length pins" and "i < length (ticks s)"
    and "\<bar>now_check r - start s\<bar> \<le> 31536000"
    and "total_msec (tv_sec r) (tv_usec r) (start s) = Some e"
    and "ticks s ! i \<le> e" and "e < ticks s ! i + 300"
  shows "main_pin_event tbl pins edge fd i r s = Ok s"
  using assms
  by (simp add: main_pin_event_def c_abs_year BOUNCE_MSEC_def CLOCK_ERROR_SECONDS_def
      SEC_PER_YEAR_def in_int_def INT_MIN_def INT_MAX_def)

lemma main_loop_rejected:
  assumes "i < length pins" and "i < length (ticks s)"
    and "\<And>r. r \<in> set rs \<Longrightarrow>
            revents r AND POLLPRI \<noteq> 0 \<and> \<bar>now_check r - start s\<bar> \<le> 31536000
            \<and> (\<exists>e. total_msec (tv_sec r) (tv_usec r) (start s) = Some e
                  \<and> ticks s ! i \<le> e \<and> e < ticks s ! i + 300)"
  shows "main_loop tbl pins edge fd (map (only_line i) rs) s = Ok s"
  using assms(3)
proof (induction rs)
  case Nil
  show ?case by simp
next
  case (Cons r rs)
  from Cons.prems [of r] obtain e where r: "revents r AND POLLPRI \<noteq> 0"
      "\<bar>now_check r - start s\<bar> \<le> 31536000"
      "total_msec (tv_sec r) (tv_usec r) (start s) = Some e"
      "ticks s ! i \<le> e" "e < ticks s ! i + 300"
    by auto
  have "main_scan tbl pins edge fd (only_line i r) [0..<length pins] s = Ok s"
    using main_scan_only_line [OF assms(1) r(1)] rejected_event [OF assms(1,2) r(2-5)]
    by simp
  moreover have "main_loop tbl pins edge fd (map (only_line i) rs) s = Ok s"
    using Cons.prems by (intro Cons.IH) simp
  ultimately show ?case by simp
qed

subsection \<open>Bursts\<close>

text \<open>
  C3, as the program has it. Take a burst of wake-ups in which line \<open>i\<close> alone is
  pending, all with a valid clock reading. If the first transition passes the filter (its
  elapsed time \<open>e0\<close> is above the startup grace and more than the bounce window after the
  last-accepted time of the line) and every later transition of the burst comes less than
  the bounce window (300 ms) after that first transition, then the loop ends in the state
  that the first transition alone produces: the first is accepted, \<open>ticks[i]\<close> is \<open>e0\<close>,
  and the later transitions change nothing and write nothing. The window is measured from
  the accepted transition, not from the transition before.
\<close>

theorem burst_within_window_rejected:
  assumes "i < length pins" and "i < length (ticks s)"
    and "revents r0 AND POLLPRI \<noteq> 0"
    and "\<bar>now_check r0 - start s\<bar> \<le> 31536000"
    and "total_msec (tv_sec r0) (tv_usec r0) (start s) = Some e0"
    and "in_int (e0 - ticks s ! i)"
    and "e0 - ticks s ! i > 300" and "e0 > 1000"
    and "\<forall>r \<in> set rs. revents r AND POLLPRI \<noteq> 0 \<and> \<bar>now_check r - start s\<bar> \<le> 31536000
            \<and> (\<exists>e. total_msec (tv_sec r) (tv_usec r) (start s) = Some e
                  \<and> e0 \<le> e \<and> e < e0 + 300)"
  shows "main_loop tbl pins edge fd (map (only_line i) (r0 # rs)) s
           = main_pin_event tbl pins edge fd i r0 s
       \<and> (\<exists>s'. main_pin_event tbl pins edge fd i r0 s = Ok s' \<and> ticks s' ! i = e0)"
proof -
  obtain s' where first: "main_pin_event tbl pins edge fd i r0 s = Ok s'"
    and s': "start s' = start s" "ticks s' = (ticks s)[i := e0]"
    using accepted_event [OF assms(1-2,4-8), of tbl edge fd] by simp
  have e0: "ticks s' ! i = e0" and len: "i < length (ticks s')"
    using assms(2) by (simp_all add: s')
  have "main_loop tbl pins edge fd (map (only_line i) rs) s' = Ok s'"
    using assms(9) by (intro main_loop_rejected [OF assms(1) len]) (simp only: s'(1) e0, blast)
  then show ?thesis
    using first e0 main_scan_only_line [OF assms(1,3), of tbl pins edge fd s]
    by simp
qed

text \<open>
  Two interrupts on line 0, 120 ms apart (2000 ms and 2120 ms after the anchor): the first
  is accepted and writes the keys of pin 20, the second leaves \<open>ticks[0]\<close> at 2000.
\<close>

theorem burst_within_window_rejected_witness:
  "main_loop mappings [20, 21] EDGE 3
     (map (only_line 0) [interrupt_at 1002 0 CHR ''0'', interrupt_at 1002 120000 CHR ''0''])
     (initial_state 1000)
   = Ok \<lparr>start = 1000, ticks = (replicate 16 0)[0 := 2000],
         trace = [key_report 3 57 1, sync_report 3, key_report 3 57 0, sync_report 3]\<rparr>"
proof -
  have first: "main_pin_event mappings [20, 21] EDGE 3 0 (interrupt_at 1002 0 CHR ''0'')
      (initial_state 1000)
     = Ok \<lparr>start = 1000, ticks = (replicate 16 0)[0 := 2000],
         trace = [key_report 3 57 1, sync_report 3, key_report 3 57 0, sync_report 3]\<rparr>"
    by (simp add: main_pin_event_def c_abs_year CLOCK_ERROR_SECONDS_def SEC_PER_YEAR_def
        BOUNCE_MSEC_def Let_def dbglog_off button_pressed_def emit_keystroke_eq run_defs)
  from burst_within_window_rejected [of 0 "[20, 21]" "initial_state 1000"
      "interrupt_at 1002 0 CHR ''0''" 2000 "[interrupt_at 1002 120000 CHR ''0'']"
      mappings EDGE 3] first
  show ?thesis
    by (simp add: run_defs)
qed

text \<open>
  Three interrupts on line 0 at 2000 ms, 2200 ms and 2400 ms after the anchor: consecutive
  transitions are 200 ms apart, less than the bounce window, yet the third is 400 ms after
  the accepted first one and is accepted as well: \<open>ticks[0]\<close> ends at 2400 and the keys
  of pin 20 are written twice.
\<close>

theorem burst_consecutive_spacing_counterexample:
  "main_loop mappings [20, 21] EDGE 3
     (map (only_line 0) [interrupt_at 1002 0 CHR ''0'', interrupt_at 1002 200000 CHR ''0'',
                         interrupt_at 1002 400000 CHR ''0''])
     (initial_state 1000)
   = Ok \<lparr>start = 1000, ticks = (replicate 16 0)[0 := 2400],
         trace = [key_report 3 57 1, sync_report 3, key_report 3 57 0, sync_report 3,
                  key_report 3 57 1, sync_report 3, key_report 3 57 0, sync_report 3]\<rparr>"
  by (simp add: only_line_def main_pin_event_def c_abs_year CLOCK_ERROR_SECONDS_def
      SEC_PER_YEAR_def BOUNCE_MSEC_def Let_def dbglog_off button_pressed_def
      emit_keystroke_eq run_defs)

subsection \<open>After a clock discontinuity\<close>

text \<open>
  C2. The reset of the anchor leaves \<open>ticks\<close> as it is, and its entries were measured
  against the old anchor. In the run below line 0 is pressed 5 s after the start
  (accepted, \<open>ticks[0] = 5000\<close>), then the wall clock jumps to 1700000000 s (the event
  that meets the jump resets the anchor and is discarded), and the line is pressed again
  2 s after the new anchor. For this third event \<^verbatim>\<open>total_msec\<close> is 2000, above the
  startup grace, but \<open>2000 - 5000\<close> is not above the bounce window: the event is rejected,
  nothing is written for it and \<open>ticks[0]\<close> stays 5000. The same event is accepted when
  the last-accepted time is the initial 0.
\<close>

theorem stale_ticks_after_clock_jump:
  "main_loop mappings [20, 21] EDGE 3
     (map (only_line 0) [interrupt_at 1005 0 CHR ''0'', interrupt_at 1700000000 0 CHR ''0'',
                         interrupt_at 1700000002 0 CHR ''0''])
     (initial_state 1000)
   = Ok \<lparr>start = 1700000000, ticks = (replicate 16 0)[0 := 5000],
         trace = [key_report 3 57 1, sync_report 3, key_report 3 57 0, sync_report 3]\<rparr>
   \<and> main_loop mappings [20, 21] EDGE 3
       (map (only_line 0) [interrupt_at 1700000002 0 CHR ''0'']) (initial_state 1700000000)
   = Ok \<lparr>start = 1700000000, ticks = (replicate 16 0)[0 := 2000],
         trace = [key_report 3 57 1, sync_report 3, key_report 3 57 0, sync_report 3]\<rparr>"
  by (simp add: only_line_def main_pin_event_def c_abs_small CLOCK_ERROR_SECONDS_def
      SEC_PER_YEAR_def BOUNCE_MSEC_def Let_def dbglog_off button_pressed_def
      emit_keystroke_eq run_defs)

subsection \<open>Setup, cleanup and the exit status\<close>









lemma open_values_Ok: "open_values w ps fds tr = Ok (fds', x) \<Longrightarrow> x = tr"
  by (induction ps arbitrary: fds) (auto simp: Let_def split: if_splits)









lemma export_pins_defined: "export_pins w ps tr \<noteq> Undefined"
  by (induction ps arbitrary: tr) (auto simp: write_to_file_def split: if_splits)



















subsection \<open>Debounce is per line\<close>

lemma main_pin_event_other:
  "main_pin_event tbl pins edge fd i r s = Ok s' \<Longrightarrow> j \<noteq> i \<Longrightarrow>
     ticks s' ! j = ticks s ! j \<and> length (ticks s') = length (ticks s)"
  by (auto simp: main_pin_event_def Let_def split: if_splits option.splits)

lemma main_scan_other:
  "main_scan tbl pins edge fd rd js s = Ok s' \<Longrightarrow> revents (rd j) AND POLLPRI = 0 \<Longrightarrow>
     ticks s' ! j = ticks s ! j"
proof (induction js arbitrary: s)
  case Nil
  then show ?case by simp
next
  case (Cons i js)
  show ?case
  proof (cases "revents (rd i) AND POLLPRI \<noteq> 0")
    case True
    with Cons.prems(2) have ij: "j \<noteq> i" by auto
    from True Cons.prems(1) obtain s1 where
      s1: "main_pin_event tbl pins edge fd i (rd i) s = Ok s1"
      and rest: "main_scan tbl pins edge fd rd js s1 = Ok s'"
      by (auto split: outcome.splits)
    from main_pin_event_other [OF s1 ij] Cons.IH [OF rest Cons.prems(2)]
    show ?thesis by simp
  next
    case False
    with Cons.prems Cons.IH show ?thesis by simp
  qed
qed

lemma main_loop_other:
  "main_loop tbl pins edge fd rds s = Ok s' \<Longrightarrow>
     (\<And>rd. rd \<in> set rds \<Longrightarrow> revents (rd j) AND POLLPRI = 0) \<Longrightarrow>
     ticks s' ! j = ticks s ! j"
proof (induction rds arbitrary: s)
  case Nil
  then show ?case by simp
next
  case (Cons rd rds)
  from Cons.prems(1) obtain s1 where
    s1: "main_scan tbl pins edge fd rd [0..<length pins] s = Ok s1"
    and rest: "main_loop tbl pins edge fd rds s1 = Ok s'"
    by (auto split: outcome.splits)
  have "ticks s1 ! j = ticks s ! j"
    using s1 Cons.prems(2) [of rd] by (intro main_scan_other) simp_all
  moreover have "ticks s' ! j = ticks s1 ! j"
    using rest Cons.prems(2) by (intro Cons.IH) simp_all
  ultimately show ?case by simp
qed

text \<open>
  C9. An event on the line of index \<open>i\<close>, accepted or rejected, leaves the last-accepted
  time of every other line \<open>j\<close> as it was (and the array keeps its length). Over the whole
  loop: whatever arrives on the other lines during any number of wake-ups, the
  last-accepted time of a line that is not pending itself stays what it was.
\<close>

theorem debounce_per_line:
  "(main_pin_event tbl pins edge fd i r s = Ok s' \<and> j \<noteq> i \<longrightarrow>
      ticks s' ! j = ticks s ! j \<and> length (ticks s') = length (ticks s))
   \<and> (main_loop tbl pins edge fd rds s = Ok s''
        \<and> (\<forall>rd \<in> set rds. revents (rd j) AND POLLPRI = 0) \<longrightarrow>
      ticks s'' ! j = ticks s ! j)"
  using main_pin_event_other [of tbl pins edge fd i r s s' j]
    main_loop_other [of tbl pins edge fd rds s s'' j]
  by blast

text \<open>
  An accepted event on line 0 sets \<open>ticks[0]\<close> to 5000 and leaves \<open>ticks[1]\<close> at 7; so
  do two wake-ups for line 0, one second apart, both accepted.
\<close>

theorem debounce_per_line_witness:
  "main_pin_event mappings [20, 21] EDGE 3 0 (interrupt_at 1005 0 CHR ''1'')
     \<lparr>start = 1000, ticks = [0, 7], trace = []\<rparr>
     = Ok \<lparr>start = 1000, ticks = [5000, 7], trace = []\<rparr>
   \<and> ticks \<lparr>start = 1000, ticks = [5000, 7], trace = []\<rparr> ! 1 = 7
   \<and> main_loop mappings [20, 21] EDGE 3
        (map (only_line 0) [interrupt_at 1005 0 CHR ''1'', interrupt_at 1006 0 CHR ''1''])
        \<lparr>start = 1000, ticks = [0, 7], trace = []\<rparr>
     = Ok \<lparr>start = 1000, ticks = [6000, 7], trace = []\<rparr>"
proof -
  let ?s = "\<lparr>start = 1000, ticks = [0, 7], trace = []\<rparr>"
  let ?rds = "map (only_line 0) [interrupt_at 1005 0 CHR ''1'', interrupt_at 1006 0 CHR ''1'']"
  have run: "main_pin_event mappings [20, 21] EDGE 3 0 (interrupt_at 1005 0 CHR ''1'') ?s
      = Ok \<lparr>start = 1000, ticks = [5000, 7], trace = []\<rparr>"
    by (simp add: main_pin_event_def c_abs_year CLOCK_ERROR_SECONDS_def SEC_PER_YEAR_def
        BOUNCE_MSEC_def Let_def run_defs)
  have loop: "main_loop mappings [20, 21] EDGE 3 ?rds ?s
      = Ok \<lparr>start = 1000, ticks = [6000, 7], trace = []\<rparr>"
    by (simp add: only_line_def main_pin_event_def c_abs_year CLOCK_ERROR_SECONDS_def
        SEC_PER_YEAR_def BOUNCE_MSEC_def Let_def run_defs)
  have idle: "\<forall>rd \<in> set ?rds. revents (rd 1) AND POLLPRI = 0"
    by (simp add: only_line_def)
  from debounce_per_line [of mappings "[20, 21]" EDGE 3 0 "interrupt_at 1005 0 CHR ''1''" ?s
      "\<lparr>start = 1000, ticks = [5000, 7], trace = []\<rparr>" 1 ?rds
      "\<lparr>start = 1000, ticks = [6000, 7], trace = []\<rparr>"] run loop idle
  show ?thesis by simp
qed

end
